theory Spec2Isabelle
  imports Complex_Main "HOL-Library.Log_Nat"
begin

section \<open>The theater simulation of real-python\_simpy.ipynb\<close>

text \<open>
  The notebook defines a module-level list \<open>wait_times\<close>, the class \<open>Theater\<close>, the
  generators \<open>go_to_movies\<close> and \<open>run_theater\<close>, and the functions
  \<open>get_average_wait_time\<close>, \<open>calculate_wait_time\<close>, \<open>get_user_input\<close> and \<open>main\<close>.
  Each of them is translated below. What they call and the notebook does not define
  (the builtins \<open>input\<close>, \<open>print\<close>, \<open>str.isdigit\<close>, \<open>int\<close>, \<open>divmod\<close>, \<open>round\<close>, the
  modules \<open>random\<close>, \<open>statistics\<close> and \<open>simpy\<close>) is modelled as far as the notebook
  uses it, from the behaviour of CPython 3.7 (the notebook's kernel) and SimPy.
\<close>

subsection \<open>Exceptions\<close>

datatype exn = ValueError | EOFError | StatisticsError | TypeError | EmptySchedule

subsection \<open>Program state outside the simulation\<close>

text \<open>
  \<open>stdin\<close> holds the lines still to be typed by the user, \<open>stdout\<close> the chunks written so
  far, \<open>wait_times\<close> is the notebook's global list and \<open>gen\<close> the state of the global
  generator of module \<open>random\<close>. Python floats are modelled by the rational they denote.
\<close>

record 'g world =
  stdin :: "string list"
  stdout :: "string list"
  wait_times :: "rat list"
  gen :: 'g

subsection \<open>Builtins used by \<open>get_user_input\<close>\<close>

text \<open>
  Strings are lists of \<^typ>\<open>char\<close>, read as the code points U+0000 to U+00FF. In this range
  \<open>str.isdigit\<close> holds of the ten decimal digits and of the superscript digits
  U+00B2, U+00B3 and U+00B9; \<open>int\<close> accepts only the former.
\<close>

definition decimal_char :: "char \<Rightarrow> bool" where
  "decimal_char c = (48 \<le> (of_char c :: nat) \<and> (of_char c :: nat) \<le> 57)"

definition superscript_char :: "char \<Rightarrow> bool" where
  "superscript_char c = ((of_char c :: nat) = 178 \<or> (of_char c :: nat) = 179 \<or> (of_char c :: nat) = 185)"

definition isdigit :: "string \<Rightarrow> bool" where
  "isdigit s = (s \<noteq> [] \<and> list_all (\<lambda>c. decimal_char c \<or> superscript_char c) s)"

fun decimal_value :: "int \<Rightarrow> string \<Rightarrow> int" where
  "decimal_value acc [] = acc"
| "decimal_value acc (c # cs) = decimal_value (10 * acc + (int (of_char c) - 48)) cs"

text \<open>
  \<open>int(s)\<close> for a string \<open>s\<close> on which \<open>isdigit\<close> holds, the only strings that reach it in
  \<open>get_user_input\<close>: a superscript digit is no decimal digit and raises \<open>ValueError\<close>.
  (Signs, blanks and underscores, which \<open>int\<close> accepts elsewhere, fail \<open>isdigit\<close>.)
\<close>

definition int_py :: "string \<Rightarrow> exn + int" where
  "int_py s = (if s \<noteq> [] \<and> list_all decimal_char s then Inr (decimal_value 0 s) else Inl ValueError)"

definition input :: "string \<Rightarrow> 'g world \<Rightarrow> (exn + string) \<times> 'g world" where
  "input prompt w =
     (let w' = w\<lparr>stdout := stdout w @ [prompt]\<rparr>
      in case stdin w' of
           [] \<Rightarrow> (Inl EOFError, w')
         | l # ls \<Rightarrow> (Inr l, w'\<lparr>stdin := ls\<rparr>))"

definition newline :: string where
  "newline = [char_of (10::nat)]"

text \<open>\<open>print(a, b)\<close> writes its arguments separated by a blank and ends the line.\<close>

fun join_blank :: "string list \<Rightarrow> string" where
  "join_blank [] = []"
| "join_blank [x] = x"
| "join_blank (x # y # ys) = x @ '' '' @ join_blank (y # ys)"

definition print :: "string list \<Rightarrow> 'g world \<Rightarrow> 'g world" where
  "print args w = w\<lparr>stdout := stdout w @ [join_blank args @ newline]\<rparr>"

subsection \<open>\<open>get_user_input\<close>\<close>

definition warning_args :: "string list" where
  "warning_args = [''Could not parse input. The simulation will use default values:'',
                   newline @ ''1 cashier, 1 server, 1 usher.'']"

fun int_all :: "string list \<Rightarrow> exn + int list" where
  "int_all [] = Inr []"
| "int_all (x # xs) =
     (case int_py x of
        Inl e \<Rightarrow> Inl e
      | Inr n \<Rightarrow> (case int_all xs of Inl e \<Rightarrow> Inl e | Inr ns \<Rightarrow> Inr (n # ns)))"

definition get_user_input :: "'g world \<Rightarrow> (exn + int list) \<times> 'g world" where
  "get_user_input w =
     (case input ''# of cashiers: '' w of
        (Inl e, w1) \<Rightarrow> (Inl e, w1)
      | (Inr num_cashiers, w1) \<Rightarrow>
     (case input ''# of servers: '' w1 of
        (Inl e, w2) \<Rightarrow> (Inl e, w2)
      | (Inr num_servers, w2) \<Rightarrow>
     (case input ''# of ushers: '' w2 of
        (Inl e, w3) \<Rightarrow> (Inl e, w3)
      | (Inr num_ushers, w3) \<Rightarrow>
     (let params = [num_cashiers, num_servers, num_ushers]
      in if list_all isdigit params
         then (int_all params, w3)
         else (Inr [1, 1, 1], print warning_args w3)))))"

subsection \<open>Python numbers\<close>

text \<open>
  A Python \<open>int\<close> or \<open>float\<close> is modelled by the rational number it denotes. The result of
  a float operation is the exact result rounded to the nearest double, ties to the even
  mantissa (\<open>float_of\<close>); overflow to infinity is left out, no value of the program comes
  near it. \<open>floor_log2 x\<close> is the exponent \<open>e\<close> with \<open>2 ^ e \<le> x < 2 ^ (e + 1)\<close>.
\<close>

definition round_half_even :: "rat \<Rightarrow> int" where
  "round_half_even x =
     (let f = \<lfloor>x\<rfloor>; d = x - of_int f
      in if d < 1 / 2 then f
         else if 1 / 2 < d then f + 1
         else if even f then f else f + 1)"

definition floor_log2 :: "rat \<Rightarrow> int" where
  "floor_log2 x =
     (let (p, q) = quotient_of x;
          e = int (floorlog 2 (nat p)) - int (floorlog 2 (nat q))
      in if x < 2 powi e then e - 1 else e)"

definition float_of :: "rat \<Rightarrow> rat" where
  "float_of x =
     (if x = 0 then 0
      else let e = max (floor_log2 \<bar>x\<bar>) (- 1022);
               ulp = 2 powi (e - 52)
           in of_int (round_half_even (x / ulp)) * ulp)"

text \<open>
  \<open>a + b\<close>, \<open>a - b\<close>, \<open>a * b\<close> and \<open>a / b\<close> on numbers of which one at least is a float (on
  two small ints the sum and the difference are exact, and rounding keeps them). Adding
  or subtracting zero returns the other operand as it is.
\<close>

definition py_add :: "rat \<Rightarrow> rat \<Rightarrow> rat" where
  "py_add a b = (if b = 0 then a else if a = 0 then b else float_of (a + b))"

definition py_sub :: "rat \<Rightarrow> rat \<Rightarrow> rat" where
  "py_sub a b = (if b = 0 then a else float_of (a - b))"

definition py_mul :: "rat \<Rightarrow> rat \<Rightarrow> rat" where
  "py_mul a b = float_of (a * b)"

definition py_div :: "rat \<Rightarrow> rat \<Rightarrow> rat" where
  "py_div a b = float_of (a / b)"

text \<open>
  \<open>divmod(x, 1)\<close> on a float: \<open>fmod(x, 1)\<close> is exact and has the sign of \<open>x\<close>; when it is
  negative, 1 is added to it (a rounded sum) and 1 taken from the quotient.
\<close>

definition divmod1 :: "rat \<Rightarrow> rat \<times> rat" where
  "divmod1 x =
     (let t = (if 0 \<le> x then \<lfloor>x\<rfloor> else \<lceil>x\<rceil>);
          m = x - of_int t
      in if m < 0 then (of_int (t - 1), py_add m 1) else (of_int t, m))"

text \<open>\<open>round(x)\<close> without a second argument: the nearest \<open>int\<close>, ties to even.\<close>

definition round_py :: "rat \<Rightarrow> int" where
  "round_py x = round_half_even x"

subsection \<open>\<open>statistics.mean\<close>, \<open>get_average_wait_time\<close>, \<open>calculate_wait_time\<close>\<close>

text \<open>
  \<open>statistics.mean\<close> raises \<open>StatisticsError\<close> on an empty list; otherwise it adds the
  data as exact fractions, divides by their number and converts the quotient to a float
  once.
\<close>

definition mean :: "rat list \<Rightarrow> exn + rat" where
  "mean xs = (if xs = [] then Inl StatisticsError
              else Inr (float_of (sum_list xs / of_nat (length xs))))"

definition get_average_wait_time :: "rat list \<Rightarrow> exn + rat" where
  "get_average_wait_time wts = mean wts"

definition calculate_wait_time :: "rat list \<Rightarrow> exn + (int \<times> int)" where
  "calculate_wait_time wts =
     (case get_average_wait_time wts of
        Inl e \<Rightarrow> Inl e
      | Inr average_wait \<Rightarrow>
          (let (minutes, frac_minutes) = divmod1 average_wait;
               seconds = py_mul frac_minutes 60
           in Inr (round_py minutes, round_py seconds)))"

subsection \<open>The summary line of \<open>main\<close>\<close>

text \<open>\<open>str\<close> of an \<open>int\<close>, as the f-string of \<open>main\<close> formats \<open>mins\<close> and \<open>secs\<close>.\<close>

fun str_nat :: "nat \<Rightarrow> string" where
  "str_nat n = (if n < 10 then [char_of (48 + n)]
                else str_nat (n div 10) @ [char_of (48 + n mod 10)])"

definition str_int :: "int \<Rightarrow> string" where
  "str_int i = (if i < 0 then ''-'' @ str_nat (nat (- i)) else str_nat (nat i))"

definition summary_line :: "int \<Rightarrow> int \<Rightarrow> string" where
  "summary_line mins secs =
     ''The average wait time is '' @ str_int mins @ '' min. and '' @ str_int secs @ '' sec.''"

text \<open>The last two statements of \<open>main\<close> (its part "View the results").\<close>

definition view_results :: "'g world \<Rightarrow> (exn + unit) \<times> 'g world" where
  "view_results w =
     (case calculate_wait_time (wait_times w) of
        Inl e \<Rightarrow> (Inl e, w)
      | Inr (mins, secs) \<Rightarrow> (Inr (), print [summary_line mins secs] w))"

subsection \<open>The averages as the specification words them\<close>






section \<open>The simulation\<close>

subsection \<open>Module \<open>random\<close>\<close>

text \<open>
  The generator of module \<open>random\<close> is a parameter: a type \<open>'g\<close> of generator states,
  the state \<open>seed_state n\<close> that \<open>random.seed(n)\<close> installs, and the function behind
  \<open>_randbelow\<close>, which returns a number and the next state. \<open>_randbelow(n)\<close> is below \<open>n\<close>;
  the model reduces the number modulo \<open>n\<close>, so that this holds of every parameter.
\<close>

record 'g random_module =
  seed_state :: "int \<Rightarrow> 'g"
  raw_below :: "nat \<Rightarrow> 'g \<Rightarrow> nat \<times> 'g"

definition randbelow :: "'g random_module \<Rightarrow> nat \<Rightarrow> 'g \<Rightarrow> nat \<times> 'g" where
  "randbelow R n g = (case raw_below R n g of (r, g') \<Rightarrow> (r mod n, g'))"

text \<open>\<open>randint(a, b)\<close> is \<open>a + _randbelow(b - a + 1)\<close>; \<open>choice(seq)\<close> is \<open>seq[_randbelow(len(seq))]\<close>.\<close>

definition randint :: "'g random_module \<Rightarrow> int \<Rightarrow> int \<Rightarrow> 'g \<Rightarrow> int \<times> 'g" where
  "randint R a b g = (case randbelow R (nat (b - a + 1)) g of (r, g') \<Rightarrow> (a + int r, g'))"

definition choice_True_False :: "'g random_module \<Rightarrow> 'g \<Rightarrow> bool \<times> 'g" where
  "choice_True_False R g = (case randbelow R 2 g of (i, g') \<Rightarrow> ([True, False] ! i, g'))"

subsection \<open>SimPy objects\<close>

text \<open>
  Events, processes and resources live in stores indexed by numbers, the references; a
  counter beside each store gives the next free cell. An event has its list of
  callbacks (\<open>None\<close> once it has been processed), is triggered or not, and may carry
  the exception that failed it. A resource has its capacity, the requests that hold a
  slot (\<open>users\<close>) and the requests that wait (\<open>put_queue\<close>). A \<open>Release\<close> is granted as soon
  as it is made, so the queue of releases is always empty and is left out; the callback
  \<open>_trigger_get\<close>, which serves that queue, does nothing.
\<close>

datatype callback = Resume nat | Trigger_put nat | Trigger_get nat | StopSimulation_callback

record event =
  callbacks :: "callback list option"
  triggered :: bool
  failure :: "exn option"

record resource =
  capacity :: int
  users :: "nat list"
  put_queue :: "nat list"

text \<open>The three attributes of a \<open>Theater\<close> object are references to resources.\<close>

record theater =
  cashier :: nat
  usher :: nat
  server :: nat

text \<open>
  A generator is given by the place where it is suspended and the locals it has there:
  \<open>run_theater\<close> before its first statement (with its arguments \<open>num_cashiers\<close>,
  \<open>num_servers\<close>, \<open>num_ushers\<close>) or at the \<open>yield\<close> of its loop (with \<open>theater\<close> and
  \<open>moviegoer\<close>); \<open>go_to_movies\<close> before its first statement or at one of its six
  \<open>yield\<close>s (with \<open>moviegoer\<close>, \<open>theater\<close>, \<open>arrival_time\<close> and the current \<open>request\<close>); one of
  the three methods of \<open>Theater\<close> before its first statement or at its \<open>yield\<close>. A
  generator that has returned keeps the name of its function only.
\<close>

datatype service = Purchase_ticket | Check_ticket | Sell_food

datatype code = Run_theater_code | Go_to_movies_code | Service_code service

datatype stage = At_cashier | At_purchase | At_usher | At_check | At_server | At_food

datatype frame =
    Run_theater_start int int int
  | Run_theater_loop theater nat
  | Go_to_movies_start nat theater
  | Go_to_movies_at stage nat theater rat nat
  | Service_start service nat
  | Service_timeout service nat
  | Finished code

fun code_of :: "frame \<Rightarrow> code" where
  "code_of (Run_theater_start _ _ _) = Run_theater_code"
| "code_of (Run_theater_loop _ _) = Run_theater_code"
| "code_of (Go_to_movies_start _ _) = Go_to_movies_code"
| "code_of (Go_to_movies_at _ _ _ _ _) = Go_to_movies_code"
| "code_of (Service_start sv _) = Service_code sv"
| "code_of (Service_timeout sv _) = Service_code sv"
| "code_of (Finished c) = c"

record process =
  generator :: frame
  proc_event :: nat

text \<open>
  The environment: the clock, the heap of scheduled events (entries \<open>(time, priority,
  eid, event)\<close>), the counter \<open>eid\<close>, and the stores. The program's own state, which the
  generators read and change, is carried along in \<open>world\<close>.
\<close>

record 'g sim =
  world :: "'g world"
  now :: rat
  queue :: "(rat \<times> nat \<times> nat \<times> nat) list"
  eid :: nat
  events :: "nat \<Rightarrow> event"
  nevents :: nat
  procs :: "nat \<Rightarrow> process"
  nprocs :: nat
  resources :: "nat \<Rightarrow> resource"
  nresources :: nat

definition URGENT :: nat where "URGENT = 0"
definition NORMAL :: nat where "NORMAL = 1"

text \<open>\<open>Environment.schedule\<close>: push \<open>(now + delay, priority, next(eid), event)\<close>.\<close>

definition schedule :: "nat \<Rightarrow> nat \<Rightarrow> rat \<Rightarrow> 'g sim \<Rightarrow> 'g sim" where
  "schedule ev priority delay s =
     s\<lparr>queue := queue s @ [(py_add (now s) delay, priority, eid s, ev)], eid := Suc (eid s)\<rparr>"

definition new_event :: "callback list \<Rightarrow> bool \<Rightarrow> 'g sim \<Rightarrow> nat \<times> 'g sim" where
  "new_event cbs trig s =
     (nevents s,
      s\<lparr>events := (events s)(nevents s := \<lparr>callbacks = Some cbs, triggered = trig, failure = None\<rparr>),
        nevents := Suc (nevents s)\<rparr>)"

text \<open>\<open>Event.succeed\<close>: the event becomes triggered and is scheduled at the current time.\<close>

definition succeed :: "nat \<Rightarrow> 'g sim \<Rightarrow> 'g sim" where
  "succeed ev s =
     schedule ev NORMAL 0 (s\<lparr>events := (events s)(ev := (events s ev)\<lparr>triggered := True\<rparr>)\<rparr>)"

text \<open>\<open>event.callbacks.append(cb)\<close>, for an event that has not been processed.\<close>

definition add_callback :: "nat \<Rightarrow> callback \<Rightarrow> 'g sim \<Rightarrow> 'g sim" where
  "add_callback ev cb s =
     s\<lparr>events := (events s)(ev := (events s ev)
          \<lparr>callbacks := map_option (\<lambda>cbs. cbs @ [cb]) (callbacks (events s ev))\<rparr>)\<rparr>"

text \<open>\<open>env.timeout(delay)\<close>: a triggered event scheduled \<open>delay\<close> from now. No delay of the program is negative.\<close>

definition timeout :: "rat \<Rightarrow> 'g sim \<Rightarrow> nat \<times> 'g sim" where
  "timeout delay s = (case new_event [] True s of (ev, s1) \<Rightarrow> (ev, schedule ev NORMAL delay s1))"

text \<open>
  \<open>env.process(generator)\<close>: a new process, whose own event is pending, and an
  \<open>Initialize\<close> event, scheduled as urgent at the current time, that will start it.
\<close>

definition process :: "frame \<Rightarrow> 'g sim \<Rightarrow> nat \<times> 'g sim" where
  "process g s =
     (case new_event [] False s of (pev, s1) \<Rightarrow>
      let pid = nprocs s1;
          s2 = s1\<lparr>procs := (procs s1)(pid := \<lparr>generator = g, proc_event = pev\<rparr>), nprocs := Suc pid\<rparr>
      in case new_event [Resume pid] True s2 of (init, s3) \<Rightarrow> (pid, schedule init URGENT 0 s3))"

text \<open>\<open>simpy.Resource(env, capacity)\<close> raises \<open>ValueError\<close> unless the capacity is positive.\<close>

definition Resource :: "int \<Rightarrow> 'g sim \<Rightarrow> (exn + nat) \<times> 'g sim" where
  "Resource cap s =
     (if cap \<le> 0 then (Inl ValueError, s)
      else (Inr (nresources s),
            s\<lparr>resources := (resources s)(nresources s := \<lparr>capacity = cap, users = [], put_queue = []\<rparr>),
              nresources := Suc (nresources s)\<rparr>))"

text \<open>
  \<open>_trigger_put\<close> looks at the first waiting request only (\<open>_do_put\<close> returns nothing, which
  ends the loop): when a slot is free, the request joins the users, succeeds and leaves
  the queue.
\<close>

definition trigger_put :: "nat \<Rightarrow> 'g sim \<Rightarrow> 'g sim" where
  "trigger_put r s =
     (let res = resources s r
      in case put_queue res of
           [] \<Rightarrow> s
         | put_event # rest \<Rightarrow>
             if int (length (users res)) < capacity res
             then succeed put_event
                    (s\<lparr>resources := (resources s)(r := res\<lparr>users := users res @ [put_event], put_queue := rest\<rparr>)\<rparr>)
             else s)"

text \<open>\<open>resource.request()\<close>: a pending event joins the queue, which is then served.\<close>

definition request :: "nat \<Rightarrow> 'g sim \<Rightarrow> nat \<times> 'g sim" where
  "request r s =
     (case new_event [Trigger_get r] False s of (ev, s1) \<Rightarrow>
      (ev, trigger_put r
             (s1\<lparr>resources := (resources s1)(r := (resources s1 r)
                  \<lparr>put_queue := put_queue (resources s1 r) @ [ev]\<rparr>)\<rparr>)))"

text \<open>
  Leaving \<open>with resource.request() as request\<close>: a request that was not granted is taken
  from the queue; then \<open>resource.release(request)\<close> removes the request from the users and
  makes a \<open>Release\<close> event, which succeeds at once and will serve the queue when it is
  processed.
\<close>

definition release :: "nat \<Rightarrow> nat \<Rightarrow> 'g sim \<Rightarrow> 'g sim" where
  "release r req s =
     (let s0 = (if triggered (events s req) then s
                else s\<lparr>resources := (resources s)(r := (resources s r)
                       \<lparr>put_queue := remove1 req (put_queue (resources s r))\<rparr>)\<rparr>)
      in case new_event [Trigger_put r] False s0 of (ev, s1) \<Rightarrow>
         succeed ev
           (s1\<lparr>resources := (resources s1)(r := (resources s1 r)
                \<lparr>users := remove1 req (users (resources s1 r))\<rparr>)\<rparr>))"

subsection \<open>Class \<open>Theater\<close>\<close>

text \<open>\<open>Theater.__init__(self, env, num_cashiers, num_ushers, num_servers)\<close>.\<close>

definition Theater :: "int \<Rightarrow> int \<Rightarrow> int \<Rightarrow> 'g sim \<Rightarrow> (exn + theater) \<times> 'g sim" where
  "Theater num_cashiers num_ushers num_servers s =
     (case Resource num_cashiers s of
        (Inl e, s1) \<Rightarrow> (Inl e, s1)
      | (Inr c, s1) \<Rightarrow>
     (case Resource num_ushers s1 of
        (Inl e, s2) \<Rightarrow> (Inl e, s2)
      | (Inr u, s2) \<Rightarrow>
     (case Resource num_servers s2 of
        (Inl e, s3) \<Rightarrow> (Inl e, s3)
      | (Inr sv, s3) \<Rightarrow> (Inr \<lparr>cashier = c, usher = u, server = sv\<rparr>, s3))))"

text \<open>
  The three methods, each up to its \<open>yield\<close>: the delay is computed, then the timeout is
  made. They return the event they yield.
\<close>

definition purchase_ticket :: "'g random_module \<Rightarrow> nat \<Rightarrow> 'g sim \<Rightarrow> nat \<times> 'g sim" where
  "purchase_ticket R moviegoer s =
     (case randint R 1 3 (gen (world s)) of (d, g') \<Rightarrow>
      timeout (of_int d) (s\<lparr>world := (world s)\<lparr>gen := g'\<rparr>\<rparr>))"

definition check_ticket :: "nat \<Rightarrow> 'g sim \<Rightarrow> nat \<times> 'g sim" where
  "check_ticket moviegoer s = timeout (py_div 3 60) s"

definition sell_food :: "'g random_module \<Rightarrow> nat \<Rightarrow> 'g sim \<Rightarrow> nat \<times> 'g sim" where
  "sell_food R moviegoer s =
     (case randint R 1 5 (gen (world s)) of (d, g') \<Rightarrow>
      timeout (of_int d) (s\<lparr>world := (world s)\<lparr>gen := g'\<rparr>\<rparr>))"

subsection \<open>The generators\<close>

text \<open>
  Sending into a generator runs it from where it is suspended to its next \<open>yield\<close>, its
  return or an exception.
\<close>

datatype sent = Yield nat frame | Return | Raise exn

text \<open>\<open>wait_times.append(env.now - arrival_time)\<close>\<close>

definition record_wait :: "rat \<Rightarrow> 'g sim \<Rightarrow> 'g sim" where
  "record_wait arrival_time s =
     s\<lparr>world := (world s)\<lparr>wait_times := wait_times (world s) @ [py_sub (now s) arrival_time]\<rparr>\<rparr>"

text \<open>\<open>yield env.process(m(moviegoer))\<close> for a method \<open>m\<close> of the theater.\<close>

definition yield_service :: "service \<Rightarrow> nat \<Rightarrow> 'g sim \<Rightarrow> nat \<times> 'g sim" where
  "yield_service sv moviegoer s =
     (case process (Service_start sv moviegoer) s of (p, s1) \<Rightarrow> (proc_event (procs s1 p), s1))"

text \<open>
  \<open>go_to_movies(env, moviegoer, theater)\<close>, from each place where it can be suspended.
\<close>

fun go_to_movies :: "'g random_module \<Rightarrow> frame \<Rightarrow> 'g sim \<Rightarrow> sent \<times> 'g sim" where
  "go_to_movies R (Go_to_movies_start moviegoer th) s =
     (let arrival_time = now s
      in case request (cashier th) s of (req, s1) \<Rightarrow>
         (Yield req (Go_to_movies_at At_cashier moviegoer th arrival_time req), s1))"
| "go_to_movies R (Go_to_movies_at At_cashier moviegoer th arrival_time req) s =
     (case yield_service Purchase_ticket moviegoer s of (ev, s1) \<Rightarrow>
      (Yield ev (Go_to_movies_at At_purchase moviegoer th arrival_time req), s1))"
| "go_to_movies R (Go_to_movies_at At_purchase moviegoer th arrival_time req) s =
     (let s1 = release (cashier th) req s
      in case request (usher th) s1 of (req', s2) \<Rightarrow>
         (Yield req' (Go_to_movies_at At_usher moviegoer th arrival_time req'), s2))"
| "go_to_movies R (Go_to_movies_at At_usher moviegoer th arrival_time req) s =
     (case yield_service Check_ticket moviegoer s of (ev, s1) \<Rightarrow>
      (Yield ev (Go_to_movies_at At_check moviegoer th arrival_time req), s1))"
| "go_to_movies R (Go_to_movies_at At_check moviegoer th arrival_time req) s =
     (let s1 = release (usher th) req s
      in case choice_True_False R (gen (world s1)) of (b, g') \<Rightarrow>
         let s2 = s1\<lparr>world := (world s1)\<lparr>gen := g'\<rparr>\<rparr>
         in if b
            then (case request (server th) s2 of (req', s3) \<Rightarrow>
                  (Yield req' (Go_to_movies_at At_server moviegoer th arrival_time req'), s3))
            else (Return, record_wait arrival_time s2))"
| "go_to_movies R (Go_to_movies_at At_server moviegoer th arrival_time req) s =
     (case yield_service Sell_food moviegoer s of (ev, s1) \<Rightarrow>
      (Yield ev (Go_to_movies_at At_food moviegoer th arrival_time req), s1))"
| "go_to_movies R (Go_to_movies_at At_food moviegoer th arrival_time req) s =
     (let s1 = release (server th) req s
      in (Return, record_wait arrival_time s1))"
| "go_to_movies R _ s = (Return, s)"

text \<open>
  \<open>run_theater(env, num_cashiers, num_servers, num_ushers)\<close>. Its first statement is
  \<open>theater = Theater(env, num_cashiers, num_servers, num_ushers)\<close>.
\<close>

definition start_moviegoer :: "nat \<Rightarrow> theater \<Rightarrow> 'g sim \<Rightarrow> 'g sim" where
  "start_moviegoer moviegoer th s = snd (process (Go_to_movies_start moviegoer th) s)"

fun run_theater :: "frame \<Rightarrow> 'g sim \<Rightarrow> sent \<times> 'g sim" where
  "run_theater (Run_theater_start num_cashiers num_servers num_ushers) s =
     (case Theater num_cashiers num_servers num_ushers s of
        (Inl e, s1) \<Rightarrow> (Raise e, s1)
      | (Inr th, s1) \<Rightarrow>
          (let s2 = start_moviegoer 2 th (start_moviegoer 1 th (start_moviegoer 0 th s1))
           in case timeout (py_div 12 60) s2 of (ev, s3) \<Rightarrow>
              (Yield ev (Run_theater_loop th 2), s3)))"
| "run_theater (Run_theater_loop th moviegoer) s =
     (let moviegoer' = moviegoer + 1;
          s1 = start_moviegoer moviegoer' th s
      in case timeout (py_div 12 60) s1 of (ev, s2) \<Rightarrow>
         (Yield ev (Run_theater_loop th moviegoer'), s2))"
| "run_theater _ s = (Return, s)"

fun service_method :: "'g random_module \<Rightarrow> service \<Rightarrow> nat \<Rightarrow> 'g sim \<Rightarrow> nat \<times> 'g sim" where
  "service_method R Purchase_ticket moviegoer s = purchase_ticket R moviegoer s"
| "service_method R Check_ticket moviegoer s = check_ticket moviegoer s"
| "service_method R Sell_food moviegoer s = sell_food R moviegoer s"

fun send :: "'g random_module \<Rightarrow> frame \<Rightarrow> 'g sim \<Rightarrow> sent \<times> 'g sim" where
  "send R (Run_theater_start a b c) s = run_theater (Run_theater_start a b c) s"
| "send R (Run_theater_loop th m) s = run_theater (Run_theater_loop th m) s"
| "send R (Go_to_movies_start m th) s = go_to_movies R (Go_to_movies_start m th) s"
| "send R (Go_to_movies_at st m th a req) s = go_to_movies R (Go_to_movies_at st m th a req) s"
| "send R (Service_start sv m) s =
     (case service_method R sv m s of (ev, s1) \<Rightarrow> (Yield ev (Service_timeout sv m), s1))"
| "send R (Service_timeout sv m) s = (Return, s)"
| "send R (Finished c) s = (Return, s)"


subsection \<open>The event loop\<close>

text \<open>
  \<open>Process._resume\<close>: the generator is sent into. When it yields an event, the process
  adds itself to the callbacks of that event (every event the program yields was made
  in the segment that yields it, so none has been processed); when it returns, the event
  of the process succeeds; when it raises, the event of the process fails with the
  exception and is scheduled.
\<close>

definition set_generator :: "nat \<Rightarrow> frame \<Rightarrow> 'g sim \<Rightarrow> 'g sim" where
  "set_generator pid fr s = s\<lparr>procs := (procs s)(pid := (procs s pid)\<lparr>generator := fr\<rparr>)\<rparr>"

definition fail :: "nat \<Rightarrow> exn \<Rightarrow> 'g sim \<Rightarrow> 'g sim" where
  "fail ev e s =
     schedule ev NORMAL 0
       (s\<lparr>events := (events s)(ev := (events s ev)\<lparr>triggered := True, failure := Some e\<rparr>)\<rparr>)"

definition resume :: "'g random_module \<Rightarrow> nat \<Rightarrow> 'g sim \<Rightarrow> 'g sim" where
  "resume R pid s =
     (let fr = generator (procs s pid)
      in case send R fr s of
           (Yield ev fr', s1) \<Rightarrow> add_callback ev (Resume pid) (set_generator pid fr' s1)
         | (Return, s1) \<Rightarrow>
             succeed (proc_event (procs s1 pid)) (set_generator pid (Finished (code_of fr)) s1)
         | (Raise e, s1) \<Rightarrow>
             fail (proc_event (procs s1 pid)) e (set_generator pid (Finished (code_of fr)) s1))"

text \<open>
  The heap gives its least entry; entries are compared as tuples, and the \<open>eid\<close>s differ.
\<close>

fun entry_less :: "rat \<times> nat \<times> nat \<times> nat \<Rightarrow> rat \<times> nat \<times> nat \<times> nat \<Rightarrow> bool" where
  "entry_less (t1, p1, i1, e1) (t2, p2, i2, e2) =
     (t1 < t2 \<or> (t1 = t2 \<and> (p1 < p2 \<or> (p1 = p2 \<and> i1 < i2))))"

fun heap_min :: "rat \<times> nat \<times> nat \<times> nat \<Rightarrow> (rat \<times> nat \<times> nat \<times> nat) list \<Rightarrow> rat \<times> nat \<times> nat \<times> nat" where
  "heap_min m [] = m"
| "heap_min m (x # xs) = heap_min (if entry_less x m then x else m) xs"

datatype status = Running | Stopped | Failed exn

fun run_callbacks :: "'g random_module \<Rightarrow> callback list \<Rightarrow> 'g sim \<Rightarrow> status \<times> 'g sim" where
  "run_callbacks R [] s = (Running, s)"
| "run_callbacks R (Resume pid # cbs) s = run_callbacks R cbs (resume R pid s)"
| "run_callbacks R (Trigger_put r # cbs) s = run_callbacks R cbs (trigger_put r s)"
| "run_callbacks R (Trigger_get r # cbs) s = run_callbacks R cbs s"
| "run_callbacks R (StopSimulation_callback # cbs) s = (Stopped, s)"

text \<open>
  \<open>Environment.step\<close>: pop the least entry, set the clock, run the callbacks of the event,
  and raise the exception of a failed event. \<open>StopSimulation.callback\<close> raises
  \<open>StopSimulation\<close>, which ends the run.
\<close>

definition heappop :: "'g sim \<Rightarrow> ((rat \<times> nat \<times> nat \<times> nat) \<times> 'g sim) option" where
  "heappop s =
     (case queue s of
        [] \<Rightarrow> None
      | x # xs \<Rightarrow> (let m = heap_min x xs in Some (m, s\<lparr>queue := remove1 m (queue s)\<rparr>)))"

definition step :: "'g random_module \<Rightarrow> 'g sim \<Rightarrow> status \<times> 'g sim" where
  "step R s =
     (case heappop s of
        None \<Rightarrow> (Failed EmptySchedule, s)
      | Some ((t, priority, i, ev), s0) \<Rightarrow>
          (let s1 = s0\<lparr>now := t\<rparr>
           in case callbacks (events s1 ev) of
                None \<Rightarrow> (Failed TypeError, s1)
              | Some cbs \<Rightarrow>
                  (let s2 = s1\<lparr>events := (events s1)(ev := (events s1 ev)\<lparr>callbacks := None\<rparr>)\<rparr>
                   in case run_callbacks R cbs s2 of
                        (Running, s3) \<Rightarrow>
                          (case failure (events s3 ev) of
                             Some e \<Rightarrow> (Failed e, s3)
                           | None \<Rightarrow> (Running, s3))
                      | (st, s3) \<Rightarrow> (st, s3))))"

text \<open>
  The loop \<open>while True: self.step()\<close> of \<open>Environment.run\<close>, at most \<open>n\<close> times round; the
  status \<open>Running\<close> says that it has neither stopped nor raised by then.
\<close>

fun steps :: "'g random_module \<Rightarrow> nat \<Rightarrow> 'g sim \<Rightarrow> status \<times> 'g sim" where
  "steps R 0 s = (Running, s)"
| "steps R (Suc n) s =
     (case step R s of
        (Running, s') \<Rightarrow> steps R n s'
      | (st, s') \<Rightarrow> (st, s'))"

text \<open>
  \<open>env.run(until=number)\<close>: an urgent event at time \<open>float(until)\<close> with the callback
  \<open>StopSimulation.callback\<close>, then the loop. The result is \<open>None\<close> when \<open>n\<close> rounds do not
  end the loop.
\<close>

definition run_until :: "rat \<Rightarrow> 'g sim \<Rightarrow> exn + 'g sim" where
  "run_until until s =
     (if until \<le> now s then Inl ValueError
      else case new_event [] True s of (u, s1) \<Rightarrow>
           Inr (add_callback u StopSimulation_callback (schedule u URGENT (py_sub until (now s1)) s1)))"

definition run :: "'g random_module \<Rightarrow> nat \<Rightarrow> rat \<Rightarrow> 'g sim \<Rightarrow> ((exn + unit) \<times> 'g sim) option" where
  "run R n until s =
     (case run_until until s of
        Inl e \<Rightarrow> Some (Inl e, s)
      | Inr s1 \<Rightarrow>
          (case steps R n s1 of
             (Running, s2) \<Rightarrow> None
           | (Stopped, s2) \<Rightarrow> Some (Inr (), s2)
           | (Failed e, s2) \<Rightarrow> Some (Inl e, s2)))"

subsection \<open>\<open>main\<close>\<close>

text \<open>\<open>simpy.Environment()\<close>: time 0, nothing scheduled, no objects.\<close>

definition Environment :: "'g world \<Rightarrow> 'g sim" where
  "Environment w =
     \<lparr>world = w, now = 0, queue = [], eid = 0,
      events = (\<lambda>_. \<lparr>callbacks = None, triggered = False, failure = None\<rparr>), nevents = 0,
      procs = (\<lambda>_. \<lparr>generator = Finished Run_theater_code, proc_event = 0\<rparr>), nprocs = 0,
      resources = (\<lambda>_. \<lparr>capacity = 0, users = [], put_queue = []\<rparr>), nresources = 0\<rparr>"

text \<open>
  The environment of \<open>main\<close> when it calls \<open>env.run\<close>: \<open>run_theater\<close> has been made a process
  with the three parameters in the order \<open>num_cashiers\<close>, \<open>num_servers\<close>, \<open>num_ushers\<close>.
\<close>

definition main_env :: "int \<Rightarrow> int \<Rightarrow> int \<Rightarrow> 'g world \<Rightarrow> 'g sim" where
  "main_env num_cashiers num_servers num_ushers w =
     snd (process (Run_theater_start num_cashiers num_servers num_ushers) (Environment w))"

definition main :: "'g random_module \<Rightarrow> nat \<Rightarrow> 'g world \<Rightarrow> ((exn + unit) \<times> 'g world) option" where
  "main R n w =
     (let w1 = w\<lparr>gen := seed_state R 0\<rparr>
      in case get_user_input w1 of
           (Inl e, w2) \<Rightarrow> Some (Inl e, w2)
         | (Inr [num_cashiers, num_servers, num_ushers], w2) \<Rightarrow>
             (let w3 = print [''Running simulation...''] w2;
                  env = main_env num_cashiers num_servers num_ushers w3
              in case run R n 90 env of
                   None \<Rightarrow> None
                 | Some (Inl e, env') \<Rightarrow> Some (Inl e, world env')
                 | Some (Inr _, env') \<Rightarrow> Some (view_results (world env')))
         | (Inr _, w2) \<Rightarrow> Some (Inl ValueError, w2))"

section \<open>Notions used in the statements about runs\<close>

text \<open>
  The state in which \<open>main\<close> enters the loop of \<open>env.run(until=90)\<close>, for the three
  parameters and the program state \<open>w\<close> at that moment.
\<close>

definition main_start :: "int \<Rightarrow> int \<Rightarrow> int \<Rightarrow> 'g world \<Rightarrow> 'g sim" where
  "main_start num_cashiers num_servers num_ushers w =
     (case run_until 90 (main_env num_cashiers num_servers num_ushers w) of
        Inr s \<Rightarrow> s
      | Inl e \<Rightarrow> main_env num_cashiers num_servers num_ushers w)"







text \<open>
  The entry that \<open>env.run(until=90)\<close> puts on the heap, and what holds of the heap while
  the loop of \<open>main\<close> runs: that entry is there, its event (the third that \<open>main\<close> makes)
  has the callback that stops the run, and of the other entries only the first one
  scheduled, at time 0, has an \<open>eid\<close> that is not above its \<open>eid\<close>.
\<close>

definition until_entry :: "rat \<times> nat \<times> nat \<times> nat" where
  "until_entry = (90, URGENT, 1, 2)"


section \<open>Properties of the input and of the summary\<close>



lemma input_line:
  "stdin w = l # ls \<Longrightarrow>
   input prompt w = (Inr l, w\<lparr>stdout := stdout w @ [prompt], stdin := ls\<rparr>)"
  by (simp add: input_def Let_def)

text \<open>
  What \<open>get_user_input\<close> does on three typed lines: the fallback when one of them fails
  \<open>isdigit\<close>, the parsed numbers when all three are strings of decimal digits.
\<close>

lemma get_user_input_fallback:
  assumes "stdin w = a # b # c # rest" and "\<not> (isdigit a \<and> isdigit b \<and> isdigit c)"
  shows "get_user_input w =
    (Inr [1, 1, 1],
     print warning_args
       (w\<lparr>stdout := stdout w @ [''# of cashiers: '', ''# of servers: '', ''# of ushers: ''],
          stdin := rest\<rparr>))"
  using assms by (auto simp add: get_user_input_def input_line)

lemma int_py_decimal:
  "s \<noteq> [] \<Longrightarrow> list_all decimal_char s \<Longrightarrow> int_py s = Inr (decimal_value 0 s)"
  by (simp add: int_py_def)

lemma isdigit_decimal: "s \<noteq> [] \<Longrightarrow> list_all decimal_char s \<Longrightarrow> isdigit s"
  by (induction s) (auto simp add: isdigit_def list_all_iff)

lemma get_user_input_parsed:
  assumes "stdin w = a # b # c # rest"
    and "a \<noteq> []" "list_all decimal_char a"
    and "b \<noteq> []" "list_all decimal_char b"
    and "c \<noteq> []" "list_all decimal_char c"
  shows "get_user_input w =
    (Inr [decimal_value 0 a, decimal_value 0 b, decimal_value 0 c],
     w\<lparr>stdout := stdout w @ [''# of cashiers: '', ''# of servers: '', ''# of ushers: ''],
       stdin := rest\<rparr>)"
  using assms by (simp add: get_user_input_def input_line isdigit_decimal int_py_decimal)

text \<open>
  C1. \<open>get_user_input\<close> is to fall back to \<open>[1, 1, 1]\<close> whenever an entered string is not a
  non-negative integer. On the three lines \<open>\<twosuperior>\<close> (the one character U+00B2), \<open>1\<close>, \<open>1\<close> it
  does not: \<open>isdigit\<close> holds of each, so the fallback is skipped, and \<open>int\<close> raises
  \<open>ValueError\<close> on the first; no warning is printed and nothing is returned.
\<close>

theorem get_user_input_superscript_raises:
  "get_user_input \<lparr>stdin = [[char_of (178::nat)], ''1'', ''1''], stdout = [], wait_times = [], gen = ()\<rparr>
   = (Inl ValueError,
      \<lparr>stdin = [], stdout = [''# of cashiers: '', ''# of servers: '', ''# of ushers: ''],
       wait_times = [], gen = ()\<rparr>)"
  by (simp add: get_user_input_def input_def isdigit_def decimal_char_def superscript_char_def
      int_py_def)



section \<open>Evaluating float operations\<close>

text \<open>
  \<open>floor_log2\<close> is the binary exponent, so \<open>float_of\<close> can be computed from a scaling
  of its argument into the range of a 53-bit mantissa.
\<close>

lemma floor_log2_bounds:
  assumes "0 < x"
  shows "2 powi floor_log2 x \<le> x \<and> x < 2 powi (floor_log2 x + 1)"
proof -
  obtain p q where pq: "quotient_of x = (p, q)" by (cases "quotient_of x")
  then have q: "0 < q" and x: "x = of_int p / of_int q"
    using quotient_of_denom_pos quotient_of_div by auto
  with assms have p: "0 < p"
    by (simp add: zero_less_divide_iff)
  define bp where "bp = floorlog 2 (nat p)"
  define bq where "bq = floorlog 2 (nat q)"
  have bp: "2 ^ (bp - 1) \<le> nat p" "nat p < 2 ^ bp"
    using floorlog_bounds [of "nat p" 2] p by (simp_all add: bp_def)
  have bq: "2 ^ (bq - 1) \<le> nat q" "nat q < 2 ^ bq"
    using floorlog_bounds [of "nat q" 2] q by (simp_all add: bq_def)
  have bp1: "1 \<le> bp" and bq1: "1 \<le> bq"
    using p q by (simp_all add: bp_def bq_def floorlog_def)
  have P1: "(2::rat) ^ (bp - 1) \<le> of_int p"
    using bp(1) by force
  have P2: "of_int p < (2::rat) ^ bp"
    using bp(2) p by (metis of_int_less_numeral_power_cancel_iff of_nat_less_numeral_power_cancel_iff
        int_nat_eq less_le)
  have Q1: "(2::rat) ^ (bq - 1) \<le> of_int q"
    using bq(1) by force
  have Q2: "of_int q < (2::rat) ^ bq"
    using bq(2) q by (metis of_int_less_numeral_power_cancel_iff of_nat_less_numeral_power_cancel_iff
        int_nat_eq less_le)
  define e where "e = int bp - int bq"
  have lo: "(2::rat) powi (e - 1) = 2 ^ (bp - 1) / 2 ^ bq"
  proof -
    have "e - 1 = int (bp - 1) - int bq" using bp1 by (simp add: e_def)
    then show ?thesis by (simp add: power_int_diff)
  qed
  have hi: "(2::rat) powi (e + 1) = 2 ^ bp / 2 ^ (bq - 1)"
  proof -
    have "e + 1 = int bp - int (bq - 1)" using bq1 by (simp add: e_def)
    then show ?thesis by (simp add: power_int_diff)
  qed
  have low: "2 powi (e - 1) \<le> x"
    unfolding lo x using P1 Q2 q p by (intro frac_le) simp_all
  have high: "x < 2 powi (e + 1)"
    unfolding hi x using P2 Q1 p by (intro frac_less) simp_all
  have fl: "floor_log2 x = (if x < 2 powi e then e - 1 else e)"
    by (simp add: floor_log2_def pq e_def bp_def bq_def)
  show ?thesis
    using low high by (simp add: fl)
qed

lemma floor_log2_eq:
  assumes "2 powi e \<le> x" and "x < 2 powi (e + 1)"
  shows "floor_log2 x = e"
proof -
  have pos: "0 < x"
    using assms(1) by (meson less_le_trans zero_less_numeral zero_less_power_int)
  define f where "f = floor_log2 x"
  have b: "2 powi f \<le> x" "x < 2 powi (f + 1)"
    using floor_log2_bounds [OF pos] by (simp_all add: f_def)
  have "\<not> f < e"
  proof
    assume "f < e"
    then have "(2::rat) powi (f + 1) \<le> 2 powi e"
      by (intro power_int_increasing) simp_all
    with b(2) assms(1) show False by simp
  qed
  moreover have "\<not> e < f"
  proof
    assume "e < f"
    then have "(2::rat) powi (e + 1) \<le> 2 powi f"
      by (intro power_int_increasing) simp_all
    with b(1) assms(2) show False by simp
  qed
  ultimately show ?thesis by (simp add: f_def)
qed

lemma round_half_even_near:
  assumes "\<bar>x - of_int n\<bar> < 1 / 2"
  shows "round_half_even x = n"
proof -
  have f: "of_int \<lfloor>x\<rfloor> \<le> x" "x < of_int \<lfloor>x\<rfloor> + 1"
    using floor_correct [of x] by simp_all
  consider "\<lfloor>x\<rfloor> = n" | "\<lfloor>x\<rfloor> = n - 1"
  proof -
    have "of_int n - 1 < x" "x < of_int n + 1" using assms by linarith+
    then have "n - 1 \<le> \<lfloor>x\<rfloor>" "\<lfloor>x\<rfloor> \<le> n"
      by (simp_all add: le_floor_iff floor_le_iff) 
    then show ?thesis using that by linarith
  qed
  then show ?thesis
  proof cases
    case 1
    then have "of_int \<lfloor>x\<rfloor> = (of_int n :: rat)" by simp
    then have "x - of_int \<lfloor>x\<rfloor> < 1 / 2" using assms by linarith
    then show ?thesis using 1 by (simp add: round_half_even_def Let_def)
  next
    case 2
    then have "of_int \<lfloor>x\<rfloor> = (of_int n :: rat) - 1" by simp
    then have "1 / 2 < x - of_int \<lfloor>x\<rfloor>" using assms by linarith
    then show ?thesis using 2 by (simp add: round_half_even_def Let_def)
  qed
qed

lemma round_half_even_tie:
  assumes "x = of_int n + 1 / 2"
  shows "round_half_even x = (if even n then n else n + 1)"
proof -
  have "\<lfloor>x\<rfloor> = n" using assms by (intro floor_unique) simp_all
  then show ?thesis using assms by (simp add: round_half_even_def Let_def)
qed

lemma float_of_scaled_round:
  assumes "2 ^ 52 \<le> \<bar>x\<bar> * 2 ^ k" and "\<bar>x\<bar> * 2 ^ k < 2 ^ 53" and "k \<le> 1074"
  shows "float_of x = of_int (round_half_even (x * 2 ^ k)) / 2 ^ k"
proof -
  define e where "e = 52 - int k"
  have ne: "x \<noteq> 0" using assms(1) by auto
  have p: "(2::rat) powi (e - 52) = 1 / 2 ^ k"
    by (simp add: e_def power_int_minus divide_simps)
  have p0: "(2::rat) powi e = 2 ^ 52 / 2 ^ k"
    using power_int_diff [of "2::rat" 52 "int k"] by (simp add: e_def)
  have p1: "(2::rat) powi (e + 1) = 2 ^ 53 / 2 ^ k"
    using power_int_diff [of "2::rat" 53 "int k"] by (simp add: e_def)
  have "floor_log2 \<bar>x\<bar> = e"
    using assms(1,2) by (intro floor_log2_eq) (simp_all add: p0 p1 divide_simps)
  moreover have "- 1022 \<le> e" using assms(3) by (simp add: e_def)
  ultimately show ?thesis
    using ne by (simp add: float_of_def Let_def p max_def)
qed

lemma float_of_scaled:
  assumes "2 ^ 52 \<le> \<bar>x\<bar> * 2 ^ k" and "\<bar>x\<bar> * 2 ^ k < 2 ^ 53" and "k \<le> 1074"
    and "\<bar>x * 2 ^ k - of_int n\<bar> < 1 / 2"
  shows "float_of x = of_int n / 2 ^ k"
  using float_of_scaled_round [OF assms(1,2,3)] round_half_even_near [OF assms(4)] by simp

lemma float_of_scaled_tie:
  assumes "2 ^ 52 \<le> \<bar>x\<bar> * 2 ^ k" and "\<bar>x\<bar> * 2 ^ k < 2 ^ 53" and "k \<le> 1074"
    and "x * 2 ^ k = of_int n + 1 / 2" and "even n"
  shows "float_of x = of_int n / 2 ^ k"
  using float_of_scaled_round [OF assms(1,2,3)] round_half_even_tie [OF assms(4)] assms(5) by simp

lemma f7995: "float_of (7995 / 1000) = 9001569755206779 / 2 ^ 50"
proof -
  have "float_of (7995 / 1000) = of_int 9001569755206779 / 2 ^ 50"
    by (rule float_of_scaled) simp_all
  then show ?thesis by simp
qed

lemma f7995_idem: "float_of (9001569755206779 / 2 ^ 50) = 9001569755206779 / 2 ^ 50"
proof -
  have "float_of (9001569755206779 / 2 ^ 50) = of_int 9001569755206779 / 2 ^ 50"
    by (rule float_of_scaled) simp_all
  then show ?thesis by simp
qed

lemma divmod1_nonneg:
  assumes "0 \<le> x" and "of_int t \<le> x" and "x < of_int t + 1"
  shows "divmod1 x = (of_int t, x - of_int t)"
proof -
  have "\<lfloor>x\<rfloor> = t" using assms(2,3) by (intro floor_unique)
  with assms show ?thesis by (simp add: divmod1_def Let_def not_less)
qed

lemma d7995: "divmod1 (9001569755206779 / 2 ^ 50) = (of_int 7, 9001569755206779 / 2 ^ 50 - of_int 7)"
  by (rule divmod1_nonneg) simp_all

text \<open>
  C10. On the single sample 7.995 \<open>calculate_wait_time\<close> returns 7 minutes and 60 seconds:
  the fractional part times 60 is the float 59.7, which \<open>round\<close> takes to 60, and
  nothing is carried into the minutes.
\<close>

theorem calculate_wait_time_sixty_seconds:
  "calculate_wait_time [float_of (7995 / 1000)] = Inr (7, 60)"
proof -
  have "float_of ((9001569755206779 / 2 ^ 50 - of_int 7) * 60) = of_int 8402028054813082 / 2 ^ 47"
    by (rule float_of_scaled_tie) simp_all
  then have s: "py_mul (9001569755206779 / 2 ^ 50 - of_int 7) 60 = of_int 8402028054813082 / 2 ^ 47"
    by (simp add: py_mul_def)
  have r: "round_py (of_int 8402028054813082 / 2 ^ 47) = 60"
    unfolding round_py_def by (rule round_half_even_near) simp
  have m: "round_py (of_int 7) = 7"
    unfolding round_py_def by (rule round_half_even_near) simp
  have a: "mean [9001569755206779 / 2 ^ 50] = Inr (9001569755206779 / 2 ^ 50)"
    by (simp add: mean_def f7995_idem del: power_numeral)
  have "calculate_wait_time [9001569755206779 / 2 ^ 50] = Inr (7, 60)"
    unfolding calculate_wait_time_def get_average_wait_time_def
    by (simp only: a sum.case d7995 Let_def prod.case s r m)
  then show ?thesis by (simp only: f7995)
qed

section \<open>The pools of the theater and the seed\<close>

lemma Resource_pos:
  "0 < cap \<Longrightarrow> Resource cap s =
     (Inr (nresources s),
      s\<lparr>resources := (resources s)(nresources s := \<lparr>capacity = cap, users = [], put_queue = []\<rparr>),
        nresources := Suc (nresources s)\<rparr>)"
  by (simp add: Resource_def)

lemma Theater_pos:
  assumes "0 < a" "0 < b" "0 < c"
  shows "Theater a b c s =
    (Inr \<lparr>cashier = nresources s, usher = Suc (nresources s), server = Suc (Suc (nresources s))\<rparr>,
     s\<lparr>resources := (resources s)
          (nresources s := \<lparr>capacity = a, users = [], put_queue = []\<rparr>,
           Suc (nresources s) := \<lparr>capacity = b, users = [], put_queue = []\<rparr>,
           Suc (Suc (nresources s)) := \<lparr>capacity = c, users = [], put_queue = []\<rparr>),
       nresources := Suc (Suc (Suc (nresources s)))\<rparr>)"
  using assms by (simp add: Theater_def Resource_pos)

lemma resources_schedule [simp]: "resources (schedule ev p d s) = resources s"
  by (simp add: schedule_def)

lemma resources_new_event [simp]: "resources (snd (new_event cbs t s)) = resources s"
  by (simp add: new_event_def)

lemma resources_timeout [simp]: "resources (snd (timeout d s)) = resources s"
  by (simp add: timeout_def split: prod.split) (simp add: new_event_def)

lemma resources_process [simp]: "resources (snd (process g s)) = resources s"
  by (simp add: process_def new_event_def Let_def split: prod.split)

lemma resources_start_moviegoer [simp]: "resources (start_moviegoer m th s) = resources s"
  by (simp add: start_moviegoer_def)

text \<open>The pools that \<open>run_theater\<close> builds from positive parameters.\<close>

lemma run_theater_capacities:
  assumes "0 < num_cashiers" "0 < num_servers" "0 < num_ushers"
  shows "\<exists>th ev s'.
     run_theater (Run_theater_start num_cashiers num_servers num_ushers) s
       = (Yield ev (Run_theater_loop th 2), s') \<and>
     capacity (resources s' (cashier th)) = num_cashiers \<and>
     capacity (resources s' (usher th)) = num_servers \<and>
     capacity (resources s' (server th)) = num_ushers"
proof -
  let ?th = "\<lparr>cashier = nresources s, usher = Suc (nresources s), server = Suc (Suc (nresources s))\<rparr>"
  define s1 where "s1 = snd (Theater num_cashiers num_servers num_ushers s)"
  define t where "t = timeout (py_div 12 60)
     (start_moviegoer 2 ?th (start_moviegoer 1 ?th (start_moviegoer 0 ?th s1)))"
  have T: "Theater num_cashiers num_servers num_ushers s = (Inr ?th, s1)"
    using assms by (simp add: Theater_pos s1_def)
  have R: "run_theater (Run_theater_start num_cashiers num_servers num_ushers) s
          = (Yield (fst t) (Run_theater_loop ?th 2), snd t)"
    by (simp add: T t_def split: prod.split)
  have E: "resources (snd t) = resources s1" by (simp add: t_def)
  have C: "capacity (resources s1 (cashier ?th)) = num_cashiers"
    "capacity (resources s1 (usher ?th)) = num_servers"
    "capacity (resources s1 (server ?th)) = num_ushers"
    using assms by (simp_all add: Theater_pos s1_def)
  show ?thesis
    apply (rule exI [of _ ?th], rule exI [of _ "fst t"], rule exI [of _ "snd t"])
    apply (simp only: R E C simp_thms)
    done
qed

text \<open>
  C2. The usher pool is to have the entered number of ushers and the concession pool the
  entered number of servers. With 10 cashiers, 10 servers and 5 ushers entered (the run
  shown in the notebook), \<open>run_theater\<close> builds the cashier pool (resource 0) with
  capacity 10, the usher pool (resource 1) with capacity 10 and the concession pool
  (resource 2) with capacity 5: \<open>run_theater\<close> passes \<open>num_servers\<close> where \<open>Theater\<close>
  expects \<open>num_ushers\<close>, and \<open>num_ushers\<close> where it expects \<open>num_servers\<close>.
\<close>

theorem run_theater_capacities_10_10_5:
  "case run_theater (Run_theater_start 10 10 5) (main_env 10 10 5 w) of
     (r, s) \<Rightarrow> r = Yield 8 (Run_theater_loop \<lparr>cashier = 0, usher = 1, server = 2\<rparr> 2) \<and>
       capacity (resources s 0) = 10 \<and> capacity (resources s 1) = 10 \<and> capacity (resources s 2) = 5"
  by (simp add: main_env_def Environment_def process_def new_event_def schedule_def Let_def
      Theater_def Resource_def start_moviegoer_def timeout_def)


section \<open>The steps of a moviegoer\<close>



lemma world_schedule [simp]: "world (schedule ev p d s) = world s"
  by (simp add: schedule_def)

lemma world_succeed [simp]: "world (succeed ev s) = world s"
  by (simp add: succeed_def)

lemma world_trigger_put [simp]: "world (trigger_put r s) = world s"
  by (simp add: trigger_put_def Let_def split: list.split)

lemma world_release [simp]: "world (release r req s) = world s"
  by (simp add: release_def Let_def new_event_def)

lemma world_request [simp]: "world (snd (request r s)) = world s"
  by (simp add: request_def new_event_def)

lemma now_schedule [simp]: "now (schedule ev p d s) = now s"
  by (simp add: schedule_def)

lemma now_succeed [simp]: "now (succeed ev s) = now s"
  by (simp add: succeed_def)

lemma now_trigger_put [simp]: "now (trigger_put r s) = now s"
  by (simp add: trigger_put_def Let_def split: list.split)

lemma now_release [simp]: "now (release r req s) = now s"
  by (simp add: release_def Let_def new_event_def)

lemma nevents_release [simp]: "nevents (release r req s) = Suc (nevents s)"
  by (simp add: release_def Let_def new_event_def succeed_def schedule_def)

lemma fst_request [simp]: "fst (request r s) = nevents s"
  by (simp add: request_def new_event_def)

lemma resources_succeed [simp]: "resources (succeed ev s) = resources s"
  by (simp add: succeed_def schedule_def)












lemma users_release [simp]:
  "users (resources (release r req s) r) = remove1 req (users (resources s r))"
  by (simp add: release_def Let_def new_event_def)







section \<open>Samples and completed moviegoers\<close>



subsection \<open>Processes are only added\<close>



lemma procs_schedule [simp]: "procs (schedule ev p d s) = procs s" "nprocs (schedule ev p d s) = nprocs s"
  by (simp_all add: schedule_def)

lemma procs_new_event [simp]: "procs (snd (new_event cbs t s)) = procs s" "nprocs (snd (new_event cbs t s)) = nprocs s"
  by (simp_all add: new_event_def)

lemma procs_succeed [simp]: "procs (succeed ev s) = procs s" "nprocs (succeed ev s) = nprocs s"
  by (simp_all add: succeed_def)

lemma procs_fail [simp]: "procs (fail ev e s) = procs s" "nprocs (fail ev e s) = nprocs s"
  by (simp_all add: fail_def)

lemma procs_add_callback [simp]: "procs (add_callback ev cb s) = procs s" "nprocs (add_callback ev cb s) = nprocs s"
  by (simp_all add: add_callback_def)


lemma procs_trigger_put [simp]: "procs (trigger_put r s) = procs s" "nprocs (trigger_put r s) = nprocs s"
  by (simp_all add: trigger_put_def Let_def split: list.split)

lemma procs_request [simp]: "procs (snd (request r s)) = procs s" "nprocs (snd (request r s)) = nprocs s"
  by (simp_all add: request_def case_prod_beta)

lemma procs_release [simp]: "procs (release r req s) = procs s" "nprocs (release r req s) = nprocs s"
  by (simp_all add: release_def Let_def case_prod_beta)

lemma procs_Resource [simp]: "procs (snd (Resource c s)) = procs s" "nprocs (snd (Resource c s)) = nprocs s"
  by (simp_all add: Resource_def)


lemma procs_record_wait [simp]: "procs (record_wait a s) = procs s" "nprocs (record_wait a s) = nprocs s"
  by (simp_all add: record_wait_def)










subsection \<open>Samples are appended by completing moviegoers only\<close>

lemma world_timeout [simp]: "world (snd (timeout d s)) = world s"
  by (simp add: timeout_def case_prod_beta new_event_def)

lemma world_process [simp]: "world (snd (process g s)) = world s"
  by (simp add: process_def case_prod_beta new_event_def Let_def)

lemma world_start_moviegoer [simp]: "world (start_moviegoer m th s) = world s"
  by (simp add: start_moviegoer_def)

lemma world_yield_service [simp]: "world (snd (yield_service sv m s)) = world s"
  by (simp add: yield_service_def case_prod_beta)

lemma world_Theater [simp]: "world (snd (Theater a b c s)) = world s"
  by (simp add: Theater_def Resource_def)

lemma wait_times_service_method [simp]:
  "wait_times (world (snd (service_method R sv m s))) = wait_times (world s)"
  by (cases sv) (simp_all add: purchase_ticket_def check_ticket_def sell_food_def case_prod_beta)

lemma wait_times_run_theater [simp]:
  "wait_times (world (snd (run_theater fr s))) = wait_times (world s)"
  by (cases fr) (simp_all add: case_prod_beta Let_def split: sum.split)






subsection \<open>Callbacks resume existing processes\<close>






















subsection \<open>One sample for each completed moviegoer\<close>











lemma run_main_env:
  "run R n 90 (main_env a b c w) =
     (case steps R n (main_start a b c w) of
        (Running, s2) \<Rightarrow> None
      | (Stopped, s2) \<Rightarrow> Some (Inr (), s2)
      | (Failed e, s2) \<Rightarrow> Some (Inl e, s2))"
  by (simp add: run_def main_start_def run_until_def main_env_def Environment_def process_def
      new_event_def schedule_def Let_def)



section \<open>Arrivals and the horizon\<close>

subsection \<open>The heap while the loop runs\<close>























lemma fst_timeout [simp]: "fst (timeout d s) = nevents s"
  by (simp add: timeout_def case_prod_beta new_event_def)

lemma fst_yield_service [simp]: "fst (yield_service sv m s) = nevents s"
  by (simp add: yield_service_def process_def case_prod_beta new_event_def Let_def schedule_def)

lemma nevents_mono_simps [simp]:
  "nevents (schedule ev p d s) = nevents s"
  "nevents (snd (new_event cbs t s)) = Suc (nevents s)"
  "nevents (snd (process g s)) = Suc (Suc (nevents s))"
  "nevents (start_moviegoer m th s) = Suc (Suc (nevents s))"
  "nevents (snd (Theater a b c s)) = nevents s"
  by (simp_all add: schedule_def new_event_def process_def Let_def start_moviegoer_def
      Theater_def Resource_def)




subsection \<open>The clock is set by the loop only\<close>

lemma now_simps [simp]:
  "now (snd (new_event cbs t s)) = now s"
  "now (snd (timeout d s)) = now s"
  "now (snd (request r s)) = now s"
  "now (snd (process g s)) = now s"
  "now (start_moviegoer m th s) = now s"
  "now (snd (yield_service sv m s)) = now s"
  "now (snd (Theater a b c s)) = now s"
  "now (record_wait x s) = now s"
  "now (add_callback ev cb s) = now s"
  "now (set_generator pid fr s) = now s"
  "now (fail ev e s) = now s"
  by (simp_all add: new_event_def timeout_def request_def process_def start_moviegoer_def
      yield_service_def Theater_def Resource_def record_wait_def add_callback_def
      set_generator_def fail_def case_prod_beta Let_def)

lemma now_service_method [simp]: "now (snd (service_method R sv m s)) = now s"
  by (cases sv) (simp_all add: purchase_ticket_def check_ticket_def sell_food_def case_prod_beta)

lemma now_go_to_movies [simp]: "now (snd (go_to_movies R fr s)) = now s"
proof (cases fr)
  case (Go_to_movies_at st m th a req)
  then show ?thesis by (cases st) (simp_all add: case_prod_beta Let_def)
qed (simp_all add: case_prod_beta Let_def)

lemma now_run_theater [simp]: "now (snd (run_theater fr s)) = now s"
  by (cases fr) (simp_all add: case_prod_beta Let_def split: sum.split)

lemma now_send [simp]: "now (snd (send R fr s)) = now s"
  by (cases fr) (simp_all add: case_prod_beta del: go_to_movies.simps run_theater.simps)

lemma now_resume [simp]: "now (resume R pid s) = now s"
  by (simp add: resume_def Let_def case_prod_beta split: sent.split)

lemma now_run_callbacks [simp]: "now (snd (run_callbacks R cbs s)) = now s"
proof (induction cbs arbitrary: s)
  case Nil
  then show ?case by simp
next
  case (Cons cb cbs)
  then show ?case by (cases cb) simp_all
qed

subsection \<open>The least entry\<close>






subsection \<open>Processes are made before the horizon\<close>

lemma nprocs_simps [simp]:
  "nprocs (s\<lparr>now := t\<rparr>) = nprocs s" "nprocs (s\<lparr>queue := q\<rparr>) = nprocs s"
  by simp_all







subsection \<open>What \<open>run_theater\<close> does when it is resumed\<close>







section \<open>Zero staffing\<close>

lemma main_start_zero:
  "main_start 0 0 0 w =
    \<lparr>world = w, now = 0, queue = [(0, URGENT, 0, 1), until_entry], eid = 2,
     events = (\<lambda>_. \<lparr>callbacks = None, triggered = False, failure = None\<rparr>)
       (0 := \<lparr>callbacks = Some [], triggered = False, failure = None\<rparr>,
        1 := \<lparr>callbacks = Some [Resume 0], triggered = True, failure = None\<rparr>,
        2 := \<lparr>callbacks = Some [StopSimulation_callback], triggered = True, failure = None\<rparr>),
     nevents = 3,
     procs = (\<lambda>_. \<lparr>generator = Finished Run_theater_code, proc_event = 0\<rparr>)
       (0 := \<lparr>generator = Run_theater_start 0 0 0, proc_event = 0\<rparr>),
     nprocs = 1,
     resources = (\<lambda>_. \<lparr>capacity = 0, users = [], put_queue = []\<rparr>), nresources = 0\<rparr>"
  by (simp add: main_start_def run_until_def main_env_def Environment_def process_def
      new_event_def schedule_def add_callback_def Let_def until_entry_def py_add_def py_sub_def
      numeral_2_eq_2 numeral_3_eq_3)

lemma steps_zero:
  "fst (steps R (Suc (Suc n)) (main_start 0 0 0 w)) = Failed ValueError \<and>
   world (snd (steps R (Suc (Suc n)) (main_start 0 0 0 w))) = w"
proof -
  have hp: "heappop (main_start 0 0 0 w) =
     Some ((0, URGENT, 0, 1), (main_start 0 0 0 w)\<lparr>queue := [until_entry]\<rparr>)"
    by (simp add: main_start_zero heappop_def until_entry_def URGENT_def Let_def)
  define s1 where "s1 = snd (step R (main_start 0 0 0 w))"
  have st1: "step R (main_start 0 0 0 w) = (Running, s1)"
    and q1: "queue s1 = [until_entry, (0, NORMAL, 2, 0)]"
    and e1: "events s1 0 = \<lparr>callbacks = Some [], triggered = True, failure = Some ValueError\<rparr>"
    and w1: "world s1 = w"
    unfolding s1_def
    by (simp_all add: step_def hp Let_def)
       (simp_all add: main_start_zero resume_def Let_def Theater_def Resource_def fail_def
          schedule_def set_generator_def py_add_def)
  have hp2: "heappop s1 = Some ((0, NORMAL, 2, 0), s1\<lparr>queue := [until_entry]\<rparr>)"
    by (simp add: heappop_def q1 until_entry_def URGENT_def NORMAL_def Let_def)
  have st2: "step R s1 = (Failed ValueError, s1\<lparr>queue := [until_entry], now := 0,
       events := (events s1)(0 := (events s1 0)\<lparr>callbacks := None\<rparr>)\<rparr>)"
    by (simp add: step_def hp2 Let_def e1)
  show ?thesis
    by (simp add: st1 st2 w1)
qed

text \<open>
  C9. With \<open>0\<close> typed for each of the three parameters the validation succeeds:
  \<open>get_user_input\<close> returns \<open>[0, 0, 0]\<close> and prints no warning. \<open>main\<close> then hands the three
  zeros to the simulation, where \<open>simpy.Resource\<close> refuses the capacity 0: the run ends
  with \<open>ValueError\<close> in its second round, after "Running simulation..." is printed.
\<close>

theorem zero_staffing:
  "get_user_input \<lparr>stdin = [''0'', ''0'', ''0''], stdout = [], wait_times = [], gen = ()\<rparr>
   = (Inr [0, 0, 0],
      \<lparr>stdin = [], stdout = [''# of cashiers: '', ''# of servers: '', ''# of ushers: ''],
       wait_times = [], gen = ()\<rparr>) \<and>
   main R (Suc (Suc n)) \<lparr>stdin = [''0'', ''0'', ''0''], stdout = [], wait_times = [], gen = g\<rparr>
   = Some (Inl ValueError,
      \<lparr>stdin = [],
       stdout = [''# of cashiers: '', ''# of servers: '', ''# of ushers: '',
                 ''Running simulation...'' @ newline],
       wait_times = [], gen = seed_state R 0\<rparr>)"
proof -
  have g: "get_user_input \<lparr>stdin = [''0'', ''0'', ''0''], stdout = [], wait_times = [], gen = x\<rparr>
   = (Inr [0, 0, 0],
      \<lparr>stdin = [], stdout = [''# of cashiers: '', ''# of servers: '', ''# of ushers: ''],
       wait_times = [], gen = x\<rparr>)" for x :: 'x
    by (simp add: get_user_input_def input_def isdigit_def decimal_char_def int_py_def)
  obtain st s2 where s: "steps R (Suc (Suc n)) (main_start 0 0 0
      \<lparr>stdin = [], stdout = [''# of cashiers: '', ''# of servers: '', ''# of ushers: '',
                 ''Running simulation...'' @ newline],
       wait_times = [], gen = seed_state R 0\<rparr>) = (st, s2)"
    by (cases "steps R (Suc (Suc n)) (main_start 0 0 0
      \<lparr>stdin = [], stdout = [''# of cashiers: '', ''# of servers: '', ''# of ushers: '',
                 ''Running simulation...'' @ newline],
       wait_times = [], gen = seed_state R 0\<rparr>)")
  with steps_zero [of R n "\<lparr>stdin = [], stdout = [''# of cashiers: '', ''# of servers: '', ''# of ushers: '',
                 ''Running simulation...'' @ newline],
       wait_times = [], gen = seed_state R 0\<rparr>"]
  have st: "st = Failed ValueError" and w: "world s2 = \<lparr>stdin = [], stdout = [''# of cashiers: '', ''# of servers: '', ''# of ushers: '',
                 ''Running simulation...'' @ newline],
       wait_times = [], gen = seed_state R 0\<rparr>"
    by (simp_all del: steps.simps)
  have m: "main R (Suc (Suc n)) \<lparr>stdin = [''0'', ''0'', ''0''], stdout = [], wait_times = [], gen = g\<rparr>
   = Some (Inl ValueError,
      \<lparr>stdin = [],
       stdout = [''# of cashiers: '', ''# of servers: '', ''# of ushers: '',
                 ''Running simulation...'' @ newline],
       wait_times = [], gen = seed_state R 0\<rparr>)"
    using s st w by (simp add: main_def g print_def run_main_env del: steps.simps)
  show ?thesis using g [of "()"] m by (simp only: simp_thms)
qed

end
